theory Spec2Isabelle
  imports Main
begin

section \<open>JavaScript strings, errors and dates\<close>

text \<open>
  Strings are byte lists. The two non-ASCII marks the pages print are written as their
  UTF-8 bytes. \<open>\d\<close> and \<open>\D\<close> of a JavaScript regular expression (no \<open>u\<close> flag) are
  the ASCII digits and their complement.
\<close>

definition is_digit :: "char \<Rightarrow> bool" where
  "is_digit c = (c \<in> set ''0123456789'')"

text \<open>
  \<open>String.prototype.trim\<close> removes white space at both ends. The model removes the ASCII
  white space (space, tab, line feed, vertical tab, form feed, carriage return); the
  multi-byte Unicode spaces are left in place.
\<close>

definition is_space :: "char \<Rightarrow> bool" where
  "is_space c = (c \<in> set [CHR '' '', CHR 0x09, CHR 0x0A, CHR 0x0B, CHR 0x0C, CHR 0x0D])"

definition js_trim :: "string \<Rightarrow> string" where
  "js_trim s = rev (dropWhile is_space (rev (dropWhile is_space s)))"

text \<open>\<open>s || null\<close>: the empty string is falsy.\<close>

definition or_null :: "string \<Rightarrow> string option" where
  "or_null s = (if s = [] then None else Some s)"

text \<open>Truthiness of a field that is a string, \<open>null\<close> or absent.\<close>

fun truthy :: "string option \<Rightarrow> bool" where
  "truthy None = False"
| "truthy (Some s) = (s \<noteq> [])"

text \<open>
  A thrown value: an object whose \<open>message\<close> property may be missing. \<open>new Error(m)\<close> is
  \<open>JsError (Some m)\<close>.
\<close>

datatype js_error = JsError (message: "string option")

definition Error :: "string \<Rightarrow> js_error" where
  "Error m = JsError (Some m)"

text \<open>\<open>\<checkmark>\<close> (U+2713) and the ballot cross (U+2717) in UTF-8.\<close>

definition check_mark :: string where
  "check_mark = [CHR 0xE2, CHR 0x9C, CHR 0x93]"

definition cross_mark :: string where
  "cross_mark = [CHR 0xE2, CHR 0x9C, CHR 0x97]"

subsection \<open>Dates\<close>

text \<open>
  A \<open>Date\<close> is its time value: milliseconds since 1970-01-01T00:00Z, or \<open>None\<close> for an
  Invalid Date (\<open>NaN\<close>). The reservation date comes from the date input whose \<open>min\<close> and
  \<open>max\<close> attributes the page sets; its value is empty or \<open>YYYY-MM-DD\<close>. \<open>new Date(s)\<close> reads
  such a date-only string as midnight UTC of that day. Every other string is modelled as
  an Invalid Date (engines differ on them).
\<close>

definition ms_per_day :: int where
  "ms_per_day = 86400000"

definition digit_val :: "char \<Rightarrow> int" where
  "digit_val c = int (of_char c) - 48"

definition digits_val :: "string \<Rightarrow> int" where
  "digits_val s = foldl (\<lambda>acc c. 10 * acc + digit_val c) 0 s"

definition is_leap :: "int \<Rightarrow> bool" where
  "is_leap y = (y mod 4 = 0 \<and> (y mod 100 \<noteq> 0 \<or> y mod 400 = 0))"

definition days_in_month :: "int \<Rightarrow> int \<Rightarrow> int" where
  "days_in_month y m =
     (if m = 2 then (if is_leap y then 29 else 28)
      else if m = 4 \<or> m = 6 \<or> m = 9 \<or> m = 11 then 30 else 31)"

text \<open>Day number of a civil date, day 0 being 1970-01-01 (proleptic Gregorian).\<close>

definition days_from_civil :: "int \<Rightarrow> int \<Rightarrow> int \<Rightarrow> int" where
  "days_from_civil y m d =
     (let y' = (if m \<le> 2 then y - 1 else y);
          era = y' div 400;
          yoe = y' - era * 400;
          mp = (if m > 2 then m - 3 else m + 9);
          doy = (153 * mp + 2) div 5 + d - 1;
          doe = yoe * 365 + yoe div 4 - yoe div 100 + doy
      in era * 146097 + doe - 719468)"

definition iso_date_days :: "string \<Rightarrow> int option" where
  "iso_date_days s =
     (case s of
        [y1, y2, y3, y4, s1, m1, m2, s2, d1, d2] \<Rightarrow>
          (let y = digits_val [y1, y2, y3, y4];
               m = digits_val [m1, m2];
               d = digits_val [d1, d2]
           in if list_all is_digit [y1, y2, y3, y4, m1, m2, d1, d2]
                 \<and> s1 = CHR ''-'' \<and> s2 = CHR ''-''
                 \<and> 1 \<le> m \<and> m \<le> 12 \<and> 1 \<le> d \<and> d \<le> days_in_month y m
              then Some (days_from_civil y m d) else None)
      | _ \<Rightarrow> None)"

definition js_Date :: "string \<Rightarrow> int option" where
  "js_Date s = map_option (\<lambda>d. d * ms_per_day) (iso_date_days s)"

text \<open>
  The clock of the browser: the current instant and the offset of local time from UTC in
  minutes (positive east of Greenwich). \<open>setHours(0, 0, 0, 0)\<close> moves a date to local
  midnight of its local day.
\<close>

record clock =
  now_ms :: int
  tz_minutes :: int

definition local_day :: "clock \<Rightarrow> int" where
  "local_day c = (now_ms c + tz_minutes c * 60000) div ms_per_day"

definition local_midnight :: "clock \<Rightarrow> int" where
  "local_midnight c = local_day c * ms_per_day - tz_minutes c * 60000"

text \<open>\<open>a < b\<close> on dates compares time values; a comparison with \<open>NaN\<close> is false.\<close>

fun date_lt :: "int option \<Rightarrow> int \<Rightarrow> bool" where
  "date_lt None b = False"
| "date_lt (Some a) b = (a < b)"

section \<open>Reservation documents and the document database\<close>

text \<open>
  \<open>FieldValue.serverTimestamp()\<close> is a sentinel the database replaces by its own time
  when it commits the write.
\<close>

datatype ts_value = ServerTimestamp | At int

record reservation =
  customerName :: string
  customerPhone :: string
  customerEmail :: "string option"
  partySize :: string
  reservationDate :: string
  reservationTime :: string
  specialRequests :: "string option"
  status :: string
  createdAt :: ts_value
  updatedAt :: ts_value
  emailError :: "string option"
  emailErrorTimestamp :: "ts_value option"

fun resolve_ts :: "int \<Rightarrow> ts_value \<Rightarrow> ts_value" where
  "resolve_ts t ServerTimestamp = At t"
| "resolve_ts t (At u) = At u"

definition resolve_doc :: "int \<Rightarrow> reservation \<Rightarrow> reservation" where
  "resolve_doc t r =
     r\<lparr>createdAt := resolve_ts t (createdAt r),
       updatedAt := resolve_ts t (updatedAt r),
       emailErrorTimestamp := map_option (resolve_ts t) (emailErrorTimestamp r)\<rparr>"

text \<open>
  The \<open>reservations\<close> collection maps document identifiers to documents. The database
  is an external service: whether it accepts a write, the identifier it assigns and its
  clock are given by the environment.
\<close>

type_synonym collection = "string \<rightharpoonup> reservation"

datatype add_outcome = AddAccepted string | AddRejected js_error

datatype write_outcome = WriteAccepted | WriteRejected js_error

text \<open>\<open>collection('reservations').add(doc)\<close>: resolves with the new identifier or rejects.\<close>

definition firestore_add ::
  "add_outcome \<Rightarrow> int \<Rightarrow> collection \<Rightarrow> reservation \<Rightarrow> (js_error + string) \<times> collection" where
  "firestore_add outcome t db doc =
     (case outcome of
        AddAccepted new_id \<Rightarrow> (Inr new_id, db(new_id \<mapsto> resolve_doc t doc))
      | AddRejected e \<Rightarrow> (Inl e, db))"

text \<open>
  The fields an \<open>update\<close> call names; the others keep their values. An update of a
  document that does not exist is rejected.
\<close>

record changes =
  set_status :: "string option"
  set_updatedAt :: "ts_value option"
  set_emailError :: "string option"
  set_emailErrorTimestamp :: "ts_value option"

definition no_changes :: changes where
  "no_changes = \<lparr>set_status = None, set_updatedAt = None, set_emailError = None,
                  set_emailErrorTimestamp = None\<rparr>"

definition apply_changes :: "int \<Rightarrow> changes \<Rightarrow> reservation \<Rightarrow> reservation" where
  "apply_changes t ch r =
     r\<lparr>status := (case set_status ch of None \<Rightarrow> status r | Some s \<Rightarrow> s),
       updatedAt := (case set_updatedAt ch of None \<Rightarrow> updatedAt r | Some v \<Rightarrow> resolve_ts t v),
       emailError := (case set_emailError ch of None \<Rightarrow> emailError r | Some m \<Rightarrow> Some m),
       emailErrorTimestamp :=
         (case set_emailErrorTimestamp ch of None \<Rightarrow> emailErrorTimestamp r
          | Some v \<Rightarrow> Some (resolve_ts t v))\<rparr>"

definition not_found :: js_error where
  "not_found = Error ''No document to update''"

definition firestore_update ::
  "write_outcome \<Rightarrow> int \<Rightarrow> collection \<Rightarrow> string \<Rightarrow> changes \<Rightarrow> (js_error + unit) \<times> collection" where
  "firestore_update outcome t db rid ch =
     (case db rid of
        None \<Rightarrow> (Inl not_found, db)
      | Some r \<Rightarrow>
          (case outcome of
             WriteAccepted \<Rightarrow> (Inr (), db(rid \<mapsto> apply_changes t ch r))
           | WriteRejected e \<Rightarrow> (Inl e, db)))"

section \<open>Reservation Intake\<close>

text \<open>
  The submit handler of the reservation form exists in two versions in the repository:
  \<open>public/js/reservations.js\<close>, which shows a message and re-enables the button from a
  timer, and the later one, which replaces the booking widget by a success view. They
  share everything up to the database write and the whole catch block.
\<close>

datatype variant = AutoReenable | SuccessView

record form_fields =
  customer_name :: string
  customer_phone :: string
  customer_email :: string
  party_size :: string
  reservation_date :: string
  reservation_time :: string
  special_requests :: string

datatype timer = ReenableSubmit | ShowSuccessHTML reservation | AnimateIcon

datatype widget_content = BookingForm | SuccessHTML reservation

record widget =
  opacity :: string
  content :: widget_content
  icon_animated :: bool

text \<open>
  The part of the page the handlers read and write. \<open>default_fields\<close> are the values
  \<open>form.reset()\<close> restores; \<open>timers\<close> are the pending \<open>setTimeout\<close> callbacks;
  \<open>booking_widget\<close> is \<open>None\<close> when the page has no \<open>.booking-widget\<close> element.
\<close>

record page =
  inputs :: form_fields
  default_fields :: form_fields
  submit_disabled :: bool
  submit_text :: string
  message_text :: string
  message_class :: string
  message_hidden :: bool
  timers :: "timer list"
  booking_widget :: "widget option"

text \<open>
  The \<open>firebase\<close> global when the handler runs: the SDK is not loaded (building the form
  data, which reads \<open>firebase.firestore.FieldValue\<close>, throws the engine's error), it is
  loaded with no app initialised, or it is ready.
\<close>

datatype firebase_state = FirebaseMissing js_error | FirebaseNoApp | FirebaseReady

record submit_env =
  firebase :: firebase_state
  browser_clock :: clock
  add_result :: add_outcome
  commit_time :: int

text \<open>The database and the log of the \<open>add\<close> calls the page has issued.\<close>

record backend =
  reservations :: collection
  add_calls :: "reservation list"

text \<open>\<open>/^[6-9]\d{9}$/.test(s)\<close>\<close>

definition phoneRegex_test :: "string \<Rightarrow> bool" where
  "phoneRegex_test s =
     (case s of
        [] \<Rightarrow> False
      | c # cs \<Rightarrow> c \<in> set ''6789'' \<and> length cs = 9 \<and> list_all is_digit cs)"

definition formData_of :: "form_fields \<Rightarrow> reservation" where
  "formData_of f =
     \<lparr>customerName = js_trim (customer_name f),
      customerPhone = js_trim (customer_phone f),
      customerEmail = or_null (js_trim (customer_email f)),
      partySize = party_size f,
      reservationDate = reservation_date f,
      reservationTime = reservation_time f,
      specialRequests = or_null (js_trim (special_requests f)),
      status = ''pending'',
      createdAt = ServerTimestamp,
      updatedAt = ServerTimestamp,
      emailError = None,
      emailErrorTimestamp = None\<rparr>"

definition phone_error :: js_error where
  "phone_error = Error ''Please enter a valid 10-digit Indian phone number''"

definition date_error :: js_error where
  "date_error = Error ''Please select a future date''"

definition firebase_error :: js_error where
  "firebase_error = Error ''Firebase is not initialized. Please check your configuration.''"

text \<open>
  The body of the \<open>try\<close> block up to and including the \<open>await\<close> of the write: \<open>Inl\<close> is
  the value thrown, \<open>Inr\<close> the form data after a write that resolved.
\<close>

definition submit_try ::
  "submit_env \<Rightarrow> form_fields \<Rightarrow> backend \<Rightarrow> (js_error + reservation) \<times> backend" where
  "submit_try env f b =
     (case firebase env of
        FirebaseMissing e \<Rightarrow> (Inl e, b)
      | _ \<Rightarrow>
          (let formData = formData_of f in
           if \<not> phoneRegex_test (customerPhone formData) then (Inl phone_error, b)
           else if date_lt (js_Date (reservationDate formData))
                     (local_midnight (browser_clock env))
             then (Inl date_error, b)
           else if firebase env \<noteq> FirebaseReady then (Inl firebase_error, b)
           else
             (case firestore_add (add_result env) (commit_time env) (reservations b) formData of
                (Inl e, db) \<Rightarrow>
                  (Inl e, b\<lparr>reservations := db, add_calls := add_calls b @ [formData]\<rparr>)
              | (Inr new_id, db) \<Rightarrow>
                  (Inr formData, b\<lparr>reservations := db, add_calls := add_calls b @ [formData]\<rparr>))))"

text \<open>The two validations of the handler, on the values of the form.\<close>

definition passes_validation :: "clock \<Rightarrow> form_fields \<Rightarrow> bool" where
  "passes_validation c f =
     (phoneRegex_test (js_trim (customer_phone f))
      \<and> \<not> date_lt (js_Date (reservation_date f)) (local_midnight c))"

definition submit_start :: "page \<Rightarrow> page" where
  "submit_start p =
     p\<lparr>submit_disabled := True, submit_text := ''Submitting...'',
       message_text := [], message_class := ''form-message''\<rparr>"

definition fallback_message :: string where
  "fallback_message = ''An error occurred. Please try again or call us directly.''"

definition errorMessage :: "js_error \<Rightarrow> string" where
  "errorMessage e = (if truthy (message e) then the (message e) else fallback_message)"

definition show_error :: "js_error \<Rightarrow> page \<Rightarrow> page" where
  "show_error e p =
     p\<lparr>message_text := cross_mark @ '' '' @ errorMessage e,
       message_class := ''form-message form-message-error'',
       submit_disabled := False, submit_text := ''Reserve Table''\<rparr>"

definition success_text :: string where
  "success_text = check_mark @
     '' Reservation request submitted successfully! We will contact you shortly to confirm.''"

definition showSuccessUI :: "reservation \<Rightarrow> page \<Rightarrow> page" where
  "showSuccessUI reservationData p =
     (case booking_widget p of
        None \<Rightarrow> p
      | Some w \<Rightarrow>
          p\<lparr>booking_widget := Some (w\<lparr>opacity := ''0''\<rparr>),
            timers := timers p @ [ShowSuccessHTML reservationData]\<rparr>)"

definition show_success :: "variant \<Rightarrow> reservation \<Rightarrow> page \<Rightarrow> page" where
  "show_success v formData p =
     (case v of
        AutoReenable \<Rightarrow>
          p\<lparr>message_text := success_text,
            message_class := ''form-message form-message-success'',
            inputs := default_fields p,
            timers := timers p @ [ReenableSubmit]\<rparr>
      | SuccessView \<Rightarrow>
          (showSuccessUI formData (p\<lparr>message_hidden := True\<rparr>))\<lparr>inputs := default_fields p\<rparr>)"

definition reservation_submit ::
  "variant \<Rightarrow> submit_env \<Rightarrow> page \<times> backend \<Rightarrow> page \<times> backend" where
  "reservation_submit v env pb =
     (let p = submit_start (fst pb) in
      case submit_try env (inputs p) (snd pb) of
        (Inl e, b) \<Rightarrow> (show_error e p, b)
      | (Inr formData, b) \<Rightarrow> (show_success v formData p, b))"

text \<open>The input handler of the phone field: keep the digits, at most ten of them.\<close>

definition phone_input :: "string \<Rightarrow> string" where
  "phone_input raw =
     (let value = filter is_digit raw in
      if length value > 10 then take 10 value else value)"

definition fire_timer :: "timer \<Rightarrow> page \<Rightarrow> page" where
  "fire_timer t p =
     (case t of
        ReenableSubmit \<Rightarrow> p\<lparr>submit_disabled := False, submit_text := ''Reserve Table''\<rparr>
      | ShowSuccessHTML d \<Rightarrow>
          (case booking_widget p of
             None \<Rightarrow> p
           | Some w \<Rightarrow>
               p\<lparr>booking_widget := Some (w\<lparr>content := SuccessHTML d, opacity := ''1''\<rparr>),
                 timers := timers p @ [AnimateIcon]\<rparr>)
      | AnimateIcon \<Rightarrow>
          (case booking_widget p of
             None \<Rightarrow> p
           | Some w \<Rightarrow>
               (case content w of
                  BookingForm \<Rightarrow> p
                | SuccessHTML d \<Rightarrow> p\<lparr>booking_widget := Some (w\<lparr>icon_animated := True\<rparr>)\<rparr>)))"

text \<open>
  What can happen on the page after it has loaded: a submit event (the browser sends
  none while the submit button is disabled), a pending timer firing, or an input event
  on the phone field carrying the field's new raw value. Leaving or reloading the page
  (\<open>Back to Home\<close>, \<open>makeAnotherReservation\<close>) ends the run.
\<close>

datatype event = Submit submit_env | TimerFires nat | PhoneInput string

definition remove_nth :: "nat \<Rightarrow> 'a list \<Rightarrow> 'a list" where
  "remove_nth n xs = take n xs @ drop (Suc n) xs"

definition handle_event :: "variant \<Rightarrow> event \<Rightarrow> page \<times> backend \<Rightarrow> page \<times> backend" where
  "handle_event v ev pb =
     (let p = fst pb; b = snd pb in
      case ev of
        Submit env \<Rightarrow> (if submit_disabled p then pb else reservation_submit v env pb)
      | TimerFires n \<Rightarrow>
          (if n < length (timers p)
           then (fire_timer (timers p ! n) (p\<lparr>timers := remove_nth n (timers p)\<rparr>), b)
           else pb)
      | PhoneInput raw \<Rightarrow> (p\<lparr>inputs := (inputs p)\<lparr>customer_phone := phone_input raw\<rparr>\<rparr>, b))"

fun run_events :: "variant \<Rightarrow> event list \<Rightarrow> page \<times> backend \<Rightarrow> page \<times> backend" where
  "run_events v [] pb = pb"
| "run_events v (ev # evs) pb = run_events v evs (handle_event v ev pb)"

text \<open>
  The submit button is disabled and no pending timer would enable it again.
\<close>

definition still_locked :: "page \<times> backend \<Rightarrow> bool" where
  "still_locked pb = (submit_disabled (fst pb) \<and> ReenableSubmit \<notin> set (timers (fst pb)))"

section \<open>Admin Console\<close>

text \<open>\<open>toLowerCase\<close> on the ASCII letters; other bytes are kept.\<close>

definition to_lower :: "char \<Rightarrow> char" where
  "to_lower c =
     (let n = (of_char c :: nat) in if 65 \<le> n \<and> n \<le> 90 then char_of (n + 32) else c)"

definition js_toLowerCase :: "string \<Rightarrow> string" where
  "js_toLowerCase s = map to_lower s"

fun starts_with :: "string \<Rightarrow> string \<Rightarrow> bool" where
  "starts_with s [] = True"
| "starts_with [] (q # qs) = False"
| "starts_with (c # cs) (q # qs) = (c = q \<and> starts_with cs qs)"

text \<open>\<open>s.includes(q)\<close>\<close>

fun js_includes :: "string \<Rightarrow> string \<Rightarrow> bool" where
  "js_includes [] q = (q = [])"
| "js_includes (c # cs) q = (starts_with (c # cs) q \<or> js_includes cs q)"

datatype onclick = UpdateReservationStatus string string | DeleteReservation string

record button =
  label :: string
  action :: onclick

text \<open>
  The page-level variables and the controls of the dashboard. An entry of
  \<open>allReservations\<close> is a document with its identifier. \<open>modal_actions\<close> holds the
  buttons last rendered into the modal, \<open>alerts\<close> the \<open>alert\<close> boxes shown so far.
\<close>

record admin =
  allReservations :: "(string \<times> reservation) list"
  filteredReservations :: "(string \<times> reservation) list"
  filter_status :: string
  filter_date :: string
  search_input :: string
  table_rows :: "(string \<times> reservation) list"
  no_reservations_shown :: bool
  modal_actions :: "button list"
  modal_shown :: bool
  alerts :: "string list"

definition renderReservations :: "admin \<Rightarrow> admin" where
  "renderReservations a =
     (if filteredReservations a = [] then a\<lparr>no_reservations_shown := True\<rparr>
      else a\<lparr>no_reservations_shown := False, table_rows := filteredReservations a\<rparr>)"


text \<open>The predicate of the \<open>filter\<close> call in \<open>applyFilters\<close>, in the order of its tests.\<close>

definition filter_keeps :: "string \<Rightarrow> string \<Rightarrow> string \<Rightarrow> reservation \<Rightarrow> bool" where
  "filter_keeps statusFilter dateFilter searchQuery r =
     (if statusFilter \<noteq> ''all'' \<and> status r \<noteq> statusFilter then False
      else if dateFilter \<noteq> [] \<and> reservationDate r \<noteq> dateFilter then False
      else if searchQuery \<noteq> []
              \<and> \<not> js_includes (js_toLowerCase (customerName r @ '' '' @ customerPhone r))
                    searchQuery
        then False
      else True)"

definition applyFilters :: "admin \<Rightarrow> admin" where
  "applyFilters a =
     (let statusFilter = filter_status a;
          dateFilter = filter_date a;
          searchQuery = js_toLowerCase (search_input a)
      in renderReservations
           (a\<lparr>filteredReservations :=
                filter (\<lambda>(rid, r). filter_keeps statusFilter dateFilter searchQuery r)
                  (allReservations a)\<rparr>))"

definition clearFilters :: "admin \<Rightarrow> admin" where
  "clearFilters a = applyFilters (a\<lparr>filter_status := ''all'', filter_date := [], search_input := []\<rparr>)"

text \<open>
  The inclusion test in the words of the specification: the search text is looked for in
  the name concatenated with the phone number.
\<close>

definition spec_included :: "string \<Rightarrow> string \<Rightarrow> string \<Rightarrow> reservation \<Rightarrow> bool" where
  "spec_included statusFilter dateFilter search r =
     ((statusFilter = ''all'' \<or> status r = statusFilter)
      \<and> (dateFilter = [] \<or> reservationDate r = dateFilter)
      \<and> (search = [] \<or>
           js_includes (js_toLowerCase (customerName r @ customerPhone r))
             (js_toLowerCase search)))"

text \<open>The buttons of the \<open>modal-actions\<close> block of \<open>showReservationDetails\<close>.\<close>

definition render_actions :: "string \<Rightarrow> reservation \<Rightarrow> button list" where
  "render_actions rid r =
     (if status r = ''pending''
      then [\<lparr>label = ''Confirm'', action = UpdateReservationStatus rid ''confirmed''\<rparr>]
      else [])
     @ (if status r \<noteq> ''cancelled''
        then [\<lparr>label = ''Cancel'', action = UpdateReservationStatus rid ''cancelled''\<rparr>]
        else [])
     @ [\<lparr>label = ''Delete'', action = DeleteReservation rid\<rparr>]"

text \<open>
  \<open>showReservationDetails\<close> builds the modal as one template string and assigns it to
  \<open>innerHTML\<close>. These values of the reservation go into the string as they are, without
  escaping: into element content, into the \<open>href\<close> and \<open>class\<close> attributes and, for the
  identifier, into the \<open>onclick\<close> attributes of the buttons. (The date and the creation
  time go through the locale's formatting first.)
\<close>

definition interpolated :: "string \<Rightarrow> reservation \<Rightarrow> string list" where
  "interpolated rid r =
     [customerName r, customerPhone r]
     @ (case customerEmail r of None \<Rightarrow> [] | Some e \<Rightarrow> [e])
     @ [reservationTime r, partySize r]
     @ (case specialRequests r of None \<Rightarrow> [] | Some t \<Rightarrow> [t])
     @ [status r, rid]"

text \<open>
  A value that the HTML parser, and the script parser inside \<open>onclick\<close>, read as plain
  text wherever the template puts it: no angle bracket, ampersand, quote, backslash or
  control character.
\<close>

definition html_plain :: "string \<Rightarrow> bool" where
  "html_plain s =
     list_all (\<lambda>c. 32 \<le> (of_char c :: nat)
                   \<and> c \<notin> set [CHR ''<'', CHR ''>'', CHR ''&'', CHR 0x22, CHR 0x27, CHR 0x5C]) s"

text \<open>
  When every interpolated value is plain, the buttons of the modal are those of the
  template. When one is not, the string holds markup of the value's own, and the buttons
  of the modal are whatever the browser's parser builds from it: \<open>innerHTML_buttons\<close>,
  given by the environment.
\<close>

definition showReservationDetails ::
  "(string \<Rightarrow> reservation \<Rightarrow> button list) \<Rightarrow> string \<Rightarrow> admin \<Rightarrow> admin" where
  "showReservationDetails innerHTML_buttons reservationId a =
     (case find (\<lambda>(rid, r). rid = reservationId) (allReservations a) of
        None \<Rightarrow> a
      | Some (rid, r) \<Rightarrow>
          a\<lparr>modal_actions :=
              (if list_all html_plain (interpolated rid r) then render_actions rid r
               else innerHTML_buttons rid r),
            modal_shown := True\<rparr>)"

text \<open>\<open>'...' + error.message\<close>: a missing message prints as \<open>undefined\<close>.\<close>

definition message_string :: "js_error \<Rightarrow> string" where
  "message_string e = (case message e of None \<Rightarrow> ''undefined'' | Some m \<Rightarrow> m)"

record admin_env =
  write_result :: write_outcome
  write_time :: int
  confirm_answer :: bool

definition status_changes :: "string \<Rightarrow> changes" where
  "status_changes newStatus =
     no_changes\<lparr>set_status := Some newStatus, set_updatedAt := Some ServerTimestamp\<rparr>"

definition updateReservationStatus ::
  "admin_env \<Rightarrow> string \<Rightarrow> string \<Rightarrow> admin \<times> collection \<Rightarrow> admin \<times> collection" where
  "updateReservationStatus env reservationId newStatus adb =
     (let a = fst adb in
      case firestore_update (write_result env) (write_time env) (snd adb) reservationId
             (status_changes newStatus) of
        (Inr u, db) \<Rightarrow>
          (a\<lparr>modal_shown := False,
             alerts := alerts a @ [''Reservation '' @ newStatus @ '' successfully!'']\<rparr>, db)
      | (Inl e, db) \<Rightarrow>
          (a\<lparr>alerts := alerts a @ [''Error updating reservation: '' @ message_string e]\<rparr>, db))"




section \<open>Notification Trigger\<close>

definition FROM_EMAIL :: string where
  "FROM_EMAIL = ''noreply@onesip.co.in''"

definition MANAGER_EMAILS :: "string list" where
  "MANAGER_EMAILS = [''biswas31@yahoo.com'', ''neilbiswas13@gmail.com'']"

definition RESTAURANT_NAME :: string where
  "RESTAURANT_NAME = ''One Sip''"

text \<open>The plate emoji of the manager subject (U+1F37D U+FE0F) in UTF-8.\<close>

definition plate_emoji :: string where
  "plate_emoji = [CHR 0xF0, CHR 0x9F, CHR 0x8D, CHR 0xBD, CHR 0xEF, CHR 0xB8, CHR 0x8F]"

text \<open>
  A message handed to \<open>sgMail.send\<close>. The \<open>text\<close> and \<open>html\<close> bodies are functions of the
  reservation (and, for a manager, of its identifier) that go through the locale's date
  formatting; the record keeps what they are computed from.
\<close>

datatype mail_kind = ManagerAlert string | CustomerNotice

record mail =
  mail_to :: string
  mail_from :: string
  subject :: string
  kind :: mail_kind
  about :: reservation

definition sendManagerNotification :: "string \<Rightarrow> reservation \<Rightarrow> string \<Rightarrow> mail" where
  "sendManagerNotification managerEmail r reservationId =
     \<lparr>mail_to = managerEmail, mail_from = FROM_EMAIL,
      subject = plate_emoji @ '' New Reservation - '' @ customerName r,
      kind = ManagerAlert reservationId, about = r\<rparr>"

definition sendCustomerConfirmation :: "reservation \<Rightarrow> mail" where
  "sendCustomerConfirmation r =
     \<lparr>mail_to = (case customerEmail r of None \<Rightarrow> [] | Some e \<Rightarrow> e), mail_from = FROM_EMAIL,
      subject = ''Reservation Request Received - '' @ RESTAURANT_NAME,
      kind = CustomerNotice, about = r\<rparr>"

text \<open>
  How a dispatch settles is the mail provider's: the moment, and the message of the
  error when it is rejected. \<open>Promise.all\<close> rejects with the reason of the rejection
  that settles first (the earlier in the array among equal moments) and resolves when
  there is none.
\<close>

record dispatch =
  settled_at :: nat
  failure :: "string option"

definition rejections :: "dispatch list \<Rightarrow> (nat \<times> string) list" where
  "rejections ds = concat (map (\<lambda>d. case failure d of None \<Rightarrow> [] | Some m \<Rightarrow> [(settled_at d, m)]) ds)"

definition earlier :: "nat \<times> string \<Rightarrow> nat \<times> string \<Rightarrow> nat \<times> string" where
  "earlier best y = (if fst y < fst best then y else best)"

definition Promise_all :: "dispatch list \<Rightarrow> string option" where
  "Promise_all ds =
     (case rejections ds of [] \<Rightarrow> None | x # xs \<Rightarrow> Some (snd (foldl earlier x xs)))"

record trigger_env =
  send_result :: "mail \<Rightarrow> dispatch"
  annotate_result :: write_outcome
  annotate_time :: int

datatype trigger_result = NoData | Succeeded | Failed js_error

text \<open>
  What one run of the trigger leaves: its result, the messages handed to the mail
  provider, the \<open>update\<close> calls issued and the collection afterwards.
\<close>

record trigger_run =
  result :: trigger_result
  dispatched :: "mail list"
  updates :: "(string \<times> changes) list"
  collection_after :: collection

definition notifications :: "string \<Rightarrow> reservation \<Rightarrow> mail list" where
  "notifications reservationId r =
     map (\<lambda>email. sendManagerNotification email r reservationId) MANAGER_EMAILS
     @ (if truthy (customerEmail r) then [sendCustomerConfirmation r] else [])"

definition email_error_changes :: "string \<Rightarrow> changes" where
  "email_error_changes m =
     no_changes\<lparr>set_emailError := Some m, set_emailErrorTimestamp := Some ServerTimestamp\<rparr>"

definition sendReservationEmails ::
  "trigger_env \<Rightarrow> (string \<times> reservation) option \<Rightarrow> collection \<Rightarrow> trigger_run" where
  "sendReservationEmails env snap db =
     (case snap of
        None \<Rightarrow> \<lparr>result = NoData, dispatched = [], updates = [], collection_after = db\<rparr>
      | Some (reservationId, r) \<Rightarrow>
          (let mails = notifications reservationId r in
           case Promise_all (map (send_result env) mails) of
             None \<Rightarrow>
               \<lparr>result = Succeeded, dispatched = mails, updates = [], collection_after = db\<rparr>
           | Some m \<Rightarrow>
               (case firestore_update (annotate_result env) (annotate_time env) db reservationId
                       (email_error_changes m) of
                  (Inl e, db') \<Rightarrow>
                    \<lparr>result = Failed e, dispatched = mails,
                     updates = [(reservationId, email_error_changes m)],
                     collection_after = db'\<rparr>
                | (Inr u, db') \<Rightarrow>
                    \<lparr>result = Failed (Error (''Failed to send emails: '' @ m)),
                     dispatched = mails,
                     updates = [(reservationId, email_error_changes m)],
                     collection_after = db'\<rparr>)))"

section \<open>Identity Gateway\<close>

datatype js_value =
    JNull
  | JBool bool
  | JString string
  | JTime int
  | JArray "js_value list"
  | JObject "(string \<times> js_value) list"

type_synonym js_object = "string \<rightharpoonup> js_value"

text \<open>The signed-in user of the auth record; \<open>email\<close> and \<open>displayName\<close> may be \<open>null\<close>.\<close>

record auth_user =
  uid :: string
  email :: js_value
  displayName :: js_value

text \<open>What \<open>collection('users').doc(uid).get()\<close> does: a snapshot or a rejection.\<close>

datatype get_outcome = DocExists js_object | DocMissing | GetRejected js_error

record user_data_result =
  success :: bool
  data :: "js_object option"
  error :: "string option"

definition getUserData :: "(string \<Rightarrow> get_outcome) \<Rightarrow> string \<Rightarrow> user_data_result" where
  "getUserData users_get u =
     (case users_get u of
        DocExists d \<Rightarrow> \<lparr>success = True, data = Some d, error = None\<rparr>
      | DocMissing \<Rightarrow> \<lparr>success = False, data = None, error = Some ''User data not found''\<rparr>
      | GetRejected e \<Rightarrow>
          \<lparr>success = False, data = None, error = Some ''Failed to fetch user data''\<rparr>)"

text \<open>\<open>{...x}\<close> copies the properties of \<open>x\<close>; spreading \<open>undefined\<close> copies none.\<close>

definition spread :: "js_object option \<Rightarrow> js_object" where
  "spread x = (case x of None \<Rightarrow> Map.empty | Some d \<Rightarrow> d)"

record auth_state =
  isAuthenticated :: bool
  user :: "js_object option"

text \<open>
  The listener \<open>onAuthStateChanged\<close> registers: the value it passes to \<open>callback\<close> when the
  platform reports the signed-in user, or \<open>null\<close>.
\<close>

definition onAuthStateChanged :: "(string \<Rightarrow> get_outcome) \<Rightarrow> auth_user option \<Rightarrow> auth_state" where
  "onAuthStateChanged users_get u =
     (case u of
        Some usr \<Rightarrow>
          (let userData = getUserData users_get (uid usr) in
           \<lparr>isAuthenticated = True,
            user = Some ([''uid'' \<mapsto> JString (uid usr), ''email'' \<mapsto> email usr,
                          ''displayName'' \<mapsto> displayName usr] ++ spread (data userData))\<rparr>)
      | None \<Rightarrow> \<lparr>isAuthenticated = False, user = None\<rparr>)"

section \<open>Sample data\<close>

text \<open>The scenario of the specification, on 2026-01-10 at 13:00 UTC in Kolkata.\<close>

definition asha_fields :: form_fields where
  "asha_fields =
     \<lparr>customer_name = ''Asha Rao'', customer_phone = ''9876543210'', customer_email = [],
      party_size = ''2'', reservation_date = ''2026-01-10'', reservation_time = ''19:00'',
      special_requests = []\<rparr>"

definition blank_fields :: form_fields where
  "blank_fields =
     \<lparr>customer_name = [], customer_phone = [], customer_email = [], party_size = [],
      reservation_date = [], reservation_time = [], special_requests = []\<rparr>"

definition asha_page :: page where
  "asha_page =
     \<lparr>inputs = asha_fields, default_fields = blank_fields, submit_disabled = False,
      submit_text = ''Reserve Table'', message_text = [], message_class = ''form-message'',
      message_hidden = False, timers = [],
      booking_widget = Some \<lparr>opacity = ''1'', content = BookingForm, icon_animated = False\<rparr>\<rparr>"

definition kolkata_clock :: clock where
  "kolkata_clock = \<lparr>now_ms = 1768050000000, tz_minutes = 330\<rparr>"

definition new_york_clock :: clock where
  "new_york_clock = \<lparr>now_ms = 1768050000000, tz_minutes = - 300\<rparr>"

definition kolkata_env :: submit_env where
  "kolkata_env =
     \<lparr>firebase = FirebaseReady, browser_clock = kolkata_clock,
      add_result = AddAccepted ''res1'', commit_time = 1768050000500\<rparr>"

definition empty_backend :: backend where
  "empty_backend = \<lparr>reservations = Map.empty, add_calls = []\<rparr>"

definition asha_doc :: reservation where
  "asha_doc = resolve_doc 1768050000500 (formData_of asha_fields)"

definition admin_start :: admin where
  "admin_start =
     \<lparr>allReservations = [], filteredReservations = [], filter_status = ''all'',
      filter_date = [], search_input = [], table_rows = [], no_reservations_shown = False,
      modal_actions = [], modal_shown = False, alerts = []\<rparr>"

definition asha_admin :: admin where
  "asha_admin = admin_start\<lparr>allReservations := [(''res1'', asha_doc)]\<rparr>"





definition asha_db :: collection where
  "asha_db = [''res1'' \<mapsto> asha_doc]"

definition confirm_env :: admin_env where
  "confirm_env = \<lparr>write_result = WriteAccepted, write_time = 1768053600000, confirm_answer = True\<rparr>"

definition asha_mail_doc :: reservation where
  "asha_mail_doc = asha_doc\<lparr>customerEmail := Some ''asha@example.com''\<rparr>"

text \<open>A mail provider that delivers to the managers and rejects the customer's message.\<close>

definition bounce_env :: trigger_env where
  "bounce_env =
     \<lparr>send_result = (\<lambda>msg. if kind msg = CustomerNotice
                             then \<lparr>settled_at = 2, failure = Some ''Bad Request''\<rparr>
                             else \<lparr>settled_at = 1, failure = None\<rparr>),
      annotate_result = WriteAccepted, annotate_time = 1768050001000\<rparr>"

definition asha_user :: auth_user where
  "asha_user = \<lparr>uid = ''u1'', email = JString ''asha@example.com'', displayName = JNull\<rparr>"

section \<open>Properties of the Reservation Intake\<close>

subsection \<open>Strings\<close>

lemma space_not_digit: "is_space c \<Longrightarrow> \<not> is_digit c"
  by (auto simp: is_space_def is_digit_def)

lemma js_trim_decomp:
  "\<exists>l r. s = l @ js_trim s @ r \<and> list_all is_space l \<and> list_all is_space r"
proof -
  let ?d = "dropWhile is_space s"
  let ?l = "takeWhile is_space s"
  let ?r = "rev (takeWhile is_space (rev ?d))"
  have "rev ?d = takeWhile is_space (rev ?d) @ dropWhile is_space (rev ?d)" by simp
  then have "?d = rev (dropWhile is_space (rev ?d)) @ ?r"
    by (metis rev_append rev_rev_ident)
  then have "s = ?l @ js_trim s @ ?r"
    by (metis js_trim_def takeWhile_dropWhile_id)
  moreover have "list_all is_space ?l"
    by (simp add: list_all_iff) (meson set_takeWhileD)
  moreover have "list_all is_space ?r"
    by (simp add: list_all_iff) (meson set_takeWhileD)
  ultimately show ?thesis by blast
qed

lemma filter_digit_spaces: "list_all is_space l \<Longrightarrow> filter is_digit l = []"
  by (induction l) (auto simp: space_not_digit)

lemma filter_digit_id: "list_all is_digit s \<Longrightarrow> filter is_digit s = s"
  by (induction s) auto

lemma phoneRegex_digits: "phoneRegex_test s \<Longrightarrow> list_all is_digit s"
  by (auto simp: phoneRegex_test_def is_digit_def split: list.splits)

text \<open>A value that passes the test after trimming is, digits only, that trimmed value.\<close>

lemma strip_of_trim:
  assumes "phoneRegex_test (js_trim s)"
  shows "filter is_digit s = js_trim s"
proof -
  obtain l r where d: "s = l @ js_trim s @ r" "list_all is_space l" "list_all is_space r"
    using js_trim_decomp by blast
  have "filter is_digit s = filter is_digit l @ filter is_digit (js_trim s) @ filter is_digit r"
    by (subst d(1)) simp
  then show ?thesis
    using d(2,3) assms by (simp add: filter_digit_spaces filter_digit_id phoneRegex_digits)
qed

text \<open>What the input handler leaves in the phone field: digits, ten at most.\<close>

lemma phone_input_digits:
  "list_all is_digit (phone_input raw) \<and> length (phone_input raw) \<le> 10"
  by (auto simp: phone_input_def Let_def list_all_iff dest: in_set_takeD)

subsection \<open>The paths through the try block\<close>

lemma inputs_submit_start: "inputs (submit_start p) = inputs p"
  by (simp add: submit_start_def)

lemma phone_test_rejects:
  assumes "\<not> phoneRegex_test (js_trim (customer_phone (inputs p)))"
  shows "reservation_submit v env (p, b) =
     (show_error (case firebase env of FirebaseMissing e \<Rightarrow> e | _ \<Rightarrow> phone_error)
        (submit_start p), b)"
  using assms
  by (simp add: reservation_submit_def submit_try_def formData_of_def submit_start_def Let_def
      split: firebase_state.splits)

lemma submit_try_ready:
  assumes "passes_validation (browser_clock env) f" "firebase env = FirebaseReady"
  shows "submit_try env f b =
     (case add_result env of
        AddAccepted new_id \<Rightarrow>
          (Inr (formData_of f),
           b\<lparr>reservations :=
                (reservations b)(new_id \<mapsto> resolve_doc (commit_time env) (formData_of f)),
             add_calls := add_calls b @ [formData_of f]\<rparr>)
      | AddRejected e \<Rightarrow>
          (Inl e, b\<lparr>reservations := reservations b, add_calls := add_calls b @ [formData_of f]\<rparr>))"
  using assms
  by (simp add: submit_try_def passes_validation_def formData_of_def firestore_add_def Let_def
      split: add_outcome.splits)

lemma submit_try_no_app:
  assumes "passes_validation (browser_clock env) f" "firebase env = FirebaseNoApp"
  shows "submit_try env f b = (Inl firebase_error, b)"
  using assms
  by (simp add: submit_try_def passes_validation_def formData_of_def Let_def)

lemma asha_valid: "passes_validation kolkata_clock asha_fields"
  by code_simp

subsection \<open>A valid submission\<close>

text \<open>
  C1 (as amended). A submission that passes validation on a page whose Firebase app is
  initialised issues exactly one \<open>add\<close> call, carrying the form data with status
  \<open>pending\<close>. When the database accepts it under a new identifier, the collection gains
  exactly that document, with \<open>createdAt\<close> and \<open>updatedAt\<close> set to the time of the commit,
  and every document that was there is unchanged.
\<close>

theorem valid_submission_inserts_one_pending:
  assumes "passes_validation (browser_clock env) (inputs p)"
    and "firebase env = FirebaseReady"
    and "add_result env = AddAccepted new_id"
    and "new_id \<notin> dom (reservations b)"
  shows "\<exists>doc. snd (reservation_submit v env (p, b)) =
            \<lparr>reservations = (reservations b)(new_id \<mapsto> doc),
             add_calls = add_calls b @ [formData_of (inputs p)]\<rparr>
          \<and> doc = (formData_of (inputs p))\<lparr>createdAt := At (commit_time env),
                                              updatedAt := At (commit_time env)\<rparr>
          \<and> status doc = ''pending''
          \<and> reservations b new_id = None
          \<and> (\<forall>k r. reservations b k = Some r \<longrightarrow>
                reservations (snd (reservation_submit v env (p, b))) k = Some r)"
  using assms
  by (auto simp add: reservation_submit_def inputs_submit_start submit_try_ready resolve_doc_def
      formData_of_def)

text \<open>The scenario of the specification: one record, \<open>res1\<close>, with status \<open>pending\<close>.\<close>

theorem valid_submission_witness:
  "passes_validation (browser_clock kolkata_env) (inputs asha_page)
   \<and> firebase kolkata_env = FirebaseReady
   \<and> add_result kolkata_env = AddAccepted ''res1''
   \<and> ''res1'' \<notin> dom (reservations empty_backend)
   \<and> reservations (snd (reservation_submit SuccessView kolkata_env (asha_page, empty_backend)))
        ''res1'' = Some asha_doc
   \<and> status asha_doc = ''pending''"
proof -
  have v: "passes_validation (browser_clock kolkata_env) (inputs asha_page)"
    using asha_valid by (simp add: kolkata_env_def asha_page_def)
  have r: "firebase kolkata_env = FirebaseReady" "add_result kolkata_env = AddAccepted ''res1''"
    by (simp_all add: kolkata_env_def)
  have f: "''res1'' \<notin> dom (reservations empty_backend)"
    by (simp add: empty_backend_def)
  have c: "commit_time kolkata_env = 1768050000500" "inputs asha_page = asha_fields"
    by (simp_all add: kolkata_env_def asha_page_def)
  from valid_submission_inserts_one_pending [OF v r f, of SuccessView]
  have "reservations (snd (reservation_submit SuccessView kolkata_env (asha_page, empty_backend)))
        ''res1'' = Some asha_doc \<and> status asha_doc = ''pending''"
    by (auto simp add: c asha_doc_def resolve_doc_def formData_of_def)
  with v r f show ?thesis by blast
qed

text \<open>
  C1 as stated fails: the same valid form writes nothing when no Firebase app is
  initialised (the handler throws before the \<open>add\<close> call), and inserts nothing when the
  database rejects the write.
\<close>

theorem unwritten_valid_submission_counterexample:
  "passes_validation kolkata_clock asha_fields
   \<and> snd (reservation_submit AutoReenable (kolkata_env\<lparr>firebase := FirebaseNoApp\<rparr>)
            (asha_page, empty_backend)) = empty_backend
   \<and> reservations (snd (reservation_submit AutoReenable
            (kolkata_env\<lparr>add_result := AddRejected (Error ''unavailable'')\<rparr>)
            (asha_page, empty_backend))) = Map.empty"
proof -
  let ?e1 = "kolkata_env\<lparr>firebase := FirebaseNoApp\<rparr>"
  let ?e2 = "kolkata_env\<lparr>add_result := AddRejected (Error ''unavailable'')\<rparr>"
  have i: "inputs asha_page = asha_fields" by (simp add: asha_page_def)
  have v1: "passes_validation (browser_clock ?e1) asha_fields"
    using asha_valid by (simp add: kolkata_env_def)
  have v2: "passes_validation (browser_clock ?e2) asha_fields"
    using asha_valid by (simp add: kolkata_env_def)
  have "submit_try ?e1 asha_fields empty_backend = (Inl firebase_error, empty_backend)"
    by (rule submit_try_no_app [OF v1]) simp
  then have a: "snd (reservation_submit AutoReenable ?e1 (asha_page, empty_backend)) = empty_backend"
    by (simp add: reservation_submit_def inputs_submit_start i)
  have "firebase ?e2 = FirebaseReady" by (simp add: kolkata_env_def)
  from submit_try_ready [OF v2 this, of empty_backend]
  have "reservations (snd (reservation_submit AutoReenable ?e2 (asha_page, empty_backend)))
          = Map.empty"
    by (simp add: reservation_submit_def inputs_submit_start i empty_backend_def)
  with a asha_valid show ?thesis by blast
qed

subsection \<open>The phone check\<close>

text \<open>
  C2. When the value of the phone field, with its non-digits stripped, does not match
  \<open>^[6-9]\d{9}$\<close>, the submission ends in the catch block with the database and the log
  of \<open>add\<close> calls as they were: no document is created and no call is issued.
\<close>

theorem invalid_phone_rejected_before_write:
  assumes "\<not> phoneRegex_test (filter is_digit (customer_phone (inputs p)))"
  shows "reservation_submit v env (p, b) =
     (show_error (case firebase env of FirebaseMissing e \<Rightarrow> e | _ \<Rightarrow> phone_error)
        (submit_start p), b)"
proof -
  have "\<not> phoneRegex_test (js_trim (customer_phone (inputs p)))"
    using assms strip_of_trim by fastforce
  then show ?thesis by (rule phone_test_rejects)
qed

text \<open>The scenario of the specification: phone \<open>1234567890\<close> is rejected locally.\<close>

theorem invalid_phone_witness:
  "\<not> phoneRegex_test (filter is_digit ''1234567890'')
   \<and> snd (reservation_submit AutoReenable kolkata_env
            (asha_page\<lparr>inputs := asha_fields\<lparr>customer_phone := ''1234567890''\<rparr>\<rparr>, empty_backend))
       = empty_backend"
proof -
  have h: "\<not> phoneRegex_test (filter is_digit ''1234567890'')" by code_simp
  have "\<not> phoneRegex_test (filter is_digit (customer_phone
           (inputs (asha_page\<lparr>inputs := asha_fields\<lparr>customer_phone := ''1234567890''\<rparr>\<rparr>))))"
    using h by simp
  from invalid_phone_rejected_before_write [OF this, of AutoReenable kolkata_env empty_backend]
  show ?thesis using h by simp
qed

subsection \<open>The date check\<close>

text \<open>
  The check compares midnight UTC of the chosen day with local midnight of the current
  day. A day before the current local day is rejected in every time zone; the current
  local day and later ones pass in the zones at or east of Greenwich.
\<close>

lemma date_check_rejects:
  assumes "date_lt (js_Date (reservation_date (inputs p))) (local_midnight (browser_clock env))"
  shows "reservation_submit v env (p, b) =
     (show_error
        (case firebase env of
           FirebaseMissing e \<Rightarrow> e
         | _ \<Rightarrow> if phoneRegex_test (js_trim (customer_phone (inputs p)))
                then date_error else phone_error)
        (submit_start p), b)"
  using assms
  by (simp add: reservation_submit_def submit_try_def formData_of_def submit_start_def Let_def
      split: firebase_state.splits)

lemma past_date_before_midnight:
  assumes "iso_date_days s = Some d" "d < local_day c" "tz_minutes c < 1440"
  shows "date_lt (js_Date s) (local_midnight c)"
proof -
  have "d + 1 \<le> local_day c" using assms(2) by simp
  then have "(d + 1) * ms_per_day \<le> local_day c * ms_per_day"
    by (simp add: ms_per_day_def)
  moreover have "tz_minutes c * 60000 < ms_per_day"
    using assms(3) by (simp add: ms_per_day_def)
  ultimately have "d * ms_per_day < local_day c * ms_per_day - tz_minutes c * 60000"
    by (simp add: algebra_simps)
  then show ?thesis using assms(1) by (simp add: js_Date_def local_midnight_def)
qed

lemma past_date_rejected:
  assumes "iso_date_days (reservation_date (inputs p)) = Some d"
    and "d < local_day (browser_clock env)"
    and "tz_minutes (browser_clock env) < 1440"
  shows "\<exists>e. reservation_submit v env (p, b) = (show_error e (submit_start p), b)"
  using date_check_rejects [OF past_date_before_midnight [OF assms]] by blast

lemma today_or_later_passes_east:
  assumes "iso_date_days s = Some d" "local_day c \<le> d" "0 \<le> tz_minutes c"
  shows "\<not> date_lt (js_Date s) (local_midnight c)"
proof -
  have "local_day c * ms_per_day \<le> d * ms_per_day"
    using assms(2) by (simp add: ms_per_day_def)
  then show ?thesis using assms(1,3) by (simp add: js_Date_def local_midnight_def)
qed

text \<open>West of Greenwich the current local day itself is rejected.\<close>

lemma today_rejected_west_of_utc:
  assumes "iso_date_days s = Some (local_day c)" "tz_minutes c < 0"
  shows "date_lt (js_Date s) (local_midnight c)"
  using assms by (simp add: js_Date_def local_midnight_def)

text \<open>
  C3, where the code departs from it. In a browser five hours behind UTC, on 2026-01-10
  at 08:00 local time, the reservation date 2026-01-10 (today) with a valid phone number
  ends in the catch block with \<open>Please select a future date\<close>, and nothing is written:
  midnight UTC of the day lies before local midnight of the same day.
\<close>

theorem today_rejected_behind_utc:
  "local_day new_york_clock = 20463
   \<and> iso_date_days (reservation_date asha_fields) = Some 20463
   \<and> phoneRegex_test (js_trim (customer_phone asha_fields))
   \<and> reservation_submit AutoReenable (kolkata_env\<lparr>browser_clock := new_york_clock\<rparr>)
        (asha_page, empty_backend)
      = (show_error date_error (submit_start asha_page), empty_backend)"
proof -
  have a: "local_day new_york_clock = 20463" by code_simp
  have b: "iso_date_days (reservation_date asha_fields) = Some 20463" by code_simp
  have c: "phoneRegex_test (js_trim (customer_phone asha_fields))" by code_simp
  have m: "local_midnight new_york_clock = 1768021200000" by code_simp
  have d: "js_Date (reservation_date asha_fields) = Some 1768003200000"
    by (simp add: js_Date_def b ms_per_day_def)
  have i: "inputs asha_page = asha_fields" by (simp add: asha_page_def)
  have "submit_try (kolkata_env\<lparr>browser_clock := new_york_clock\<rparr>) asha_fields empty_backend
          = (Inl date_error, empty_backend)"
    using c by (simp add: submit_try_def formData_of_def Let_def kolkata_env_def m d)
  then have "reservation_submit AutoReenable (kolkata_env\<lparr>browser_clock := new_york_clock\<rparr>)
        (asha_page, empty_backend)
      = (show_error date_error (submit_start asha_page), empty_backend)"
    by (simp add: reservation_submit_def inputs_submit_start i)
  with a b c show ?thesis by blast
qed

subsection \<open>The catch block\<close>

lemma submit_try_calls:
  "add_calls (snd (submit_try env f b)) = add_calls b
   \<or> add_calls (snd (submit_try env f b)) = add_calls b @ [formData_of f]"
  by (simp add: submit_try_def firestore_add_def Let_def
      split: firebase_state.splits add_outcome.splits)

text \<open>
  C8. Whatever the try block throws (a validation error, a Firebase error, a rejected
  write), the message shown is the cross mark followed by the error's message verbatim,
  or by the generic fallback when the error has no message or an empty one; the submit
  button is enabled again at once; the values of the form are as entered; no timer is
  scheduled and the write was attempted at most once.
\<close>

theorem failed_submission_shows_message:
  assumes "fst (submit_try env (inputs p) b) = Inl e"
  shows "message_text (fst (reservation_submit v env (p, b))) =
           cross_mark @ '' '' @
             (case message e of
                None \<Rightarrow> ''An error occurred. Please try again or call us directly.''
              | Some m \<Rightarrow>
                  if m = [] then ''An error occurred. Please try again or call us directly.''
                  else m)
         \<and> submit_disabled (fst (reservation_submit v env (p, b))) = False
         \<and> inputs (fst (reservation_submit v env (p, b))) = inputs p
         \<and> timers (fst (reservation_submit v env (p, b))) = timers p
         \<and> (add_calls (snd (reservation_submit v env (p, b))) = add_calls b
            \<or> add_calls (snd (reservation_submit v env (p, b)))
                = add_calls b @ [formData_of (inputs p)])"
proof -
  obtain b' where t: "submit_try env (inputs p) b = (Inl e, b')"
    using assms by (cases "submit_try env (inputs p) b") auto
  then have r: "reservation_submit v env (p, b) = (show_error e (submit_start p), b')"
    by (simp add: reservation_submit_def inputs_submit_start)
  have "add_calls b' = add_calls b \<or> add_calls b' = add_calls b @ [formData_of (inputs p)]"
    using submit_try_calls [of env "inputs p" b] t by simp
  then show ?thesis
    unfolding r
    by (cases "message e")
       (simp_all add: show_error_def submit_start_def errorMessage_def fallback_message_def)
qed

text \<open>A write rejected with an error that carries no message shows the fallback.\<close>

theorem failed_submission_witness:
  "fst (submit_try (kolkata_env\<lparr>add_result := AddRejected (JsError None)\<rparr>)
         (inputs asha_page) empty_backend) = Inl (JsError None)
   \<and> message_text (fst (reservation_submit AutoReenable
         (kolkata_env\<lparr>add_result := AddRejected (JsError None)\<rparr>) (asha_page, empty_backend)))
      = cross_mark @ '' An error occurred. Please try again or call us directly.''
   \<and> inputs (fst (reservation_submit AutoReenable
         (kolkata_env\<lparr>add_result := AddRejected (JsError None)\<rparr>) (asha_page, empty_backend)))
      = asha_fields"
proof -
  let ?env = "kolkata_env\<lparr>add_result := AddRejected (JsError None)\<rparr>"
  have v: "passes_validation (browser_clock ?env) (inputs asha_page)"
    using asha_valid by (simp add: kolkata_env_def asha_page_def)
  have "firebase ?env = FirebaseReady" by (simp add: kolkata_env_def)
  from submit_try_ready [OF v this, of empty_backend]
  have h: "fst (submit_try ?env (inputs asha_page) empty_backend) = Inl (JsError None)"
    by (simp add: kolkata_env_def)
  from failed_submission_shows_message [OF h, of AutoReenable]
  show ?thesis using h by (simp add: asha_page_def)
qed

subsection \<open>The submit button after a success\<close>

lemma set_remove_nth: "set (remove_nth n xs) \<subseteq> set xs"
  by (auto simp: remove_nth_def dest: in_set_takeD in_set_dropD)

lemma fire_timer_locked:
  assumes "submit_disabled p" "ReenableSubmit \<notin> set (timers p)" "t \<noteq> ReenableSubmit"
  shows "submit_disabled (fire_timer t p) \<and> ReenableSubmit \<notin> set (timers (fire_timer t p))"
  using assms
  by (cases t) (auto simp: fire_timer_def split: option.splits widget_content.splits)

lemma handle_event_locked:
  assumes "still_locked pb"
  shows "still_locked (handle_event SuccessView ev pb)"
proof (cases ev)
  case (Submit env)
  then show ?thesis using assms by (simp add: handle_event_def still_locked_def Let_def)
next
  case (TimerFires n)
  show ?thesis
  proof (cases "n < length (timers (fst pb))")
    case True
    let ?p = "(fst pb)\<lparr>timers := remove_nth n (timers (fst pb))\<rparr>"
    have a: "submit_disabled ?p" using assms by (simp add: still_locked_def)
    have b: "ReenableSubmit \<notin> set (timers ?p)"
      using assms set_remove_nth [of n "timers (fst pb)"] by (auto simp: still_locked_def)
    have c: "timers (fst pb) ! n \<noteq> ReenableSubmit"
      using assms True by (metis nth_mem still_locked_def)
    from fire_timer_locked [OF a b c] show ?thesis
      using TimerFires True by (simp add: handle_event_def still_locked_def Let_def)
  next
    case False
    then show ?thesis using assms TimerFires by (simp add: handle_event_def Let_def)
  qed
next
  case (PhoneInput raw)
  then show ?thesis using assms by (simp add: handle_event_def still_locked_def Let_def)
qed

lemma run_events_locked:
  "still_locked pb \<Longrightarrow> still_locked (run_events SuccessView evs pb)"
  by (induction evs arbitrary: pb) (simp_all add: handle_event_locked)

lemma success_page:
  assumes "fst (submit_try env (inputs p) b) = Inr d"
  shows "fst (reservation_submit v env (p, b)) = show_success v d (submit_start p)"
proof -
  obtain b' where "submit_try env (inputs p) b = (Inr d, b')"
    using assms by (cases "submit_try env (inputs p) b") auto
  then show ?thesis by (simp add: reservation_submit_def inputs_submit_start)
qed

lemma asha_success:
  "fst (submit_try kolkata_env (inputs asha_page) empty_backend) = Inr (formData_of asha_fields)"
proof -
  have v: "passes_validation (browser_clock kolkata_env) (inputs asha_page)"
    using asha_valid by (simp add: kolkata_env_def asha_page_def)
  have "firebase kolkata_env = FirebaseReady" by (simp add: kolkata_env_def)
  from submit_try_ready [OF v this, of empty_backend]
  show ?thesis by (simp add: kolkata_env_def asha_page_def)
qed

text \<open>
  C9 (as amended). After a successful submission the submit button is disabled. In the
  version with the success view no later submit, timer or phone-input event enables it
  again, so it stays disabled until the page is left or reloaded. In
  \<open>public/js/reservations.js\<close> the handler schedules a timer of its own, and that timer
  enables the button.
\<close>

theorem success_view_keeps_submit_disabled:
  assumes "fst (submit_try env (inputs p) b) = Inr d"
    and "ReenableSubmit \<notin> set (timers p)"
  shows "submit_disabled (fst (reservation_submit v env (p, b)))
         \<and> (\<forall>evs. submit_disabled
                 (fst (run_events SuccessView evs (reservation_submit SuccessView env (p, b)))))
         \<and> timers (fst (reservation_submit AutoReenable env (p, b))) = timers p @ [ReenableSubmit]
         \<and> submit_disabled (fire_timer ReenableSubmit
                 (fst (reservation_submit AutoReenable env (p, b)))) = False"
proof -
  have 1: "submit_disabled (fst (reservation_submit v env (p, b)))"
    unfolding success_page [OF assms(1)]
    by (cases v)
       (simp_all add: show_success_def showSuccessUI_def submit_start_def split: option.splits)
  have "still_locked (reservation_submit SuccessView env (p, b))"
    unfolding still_locked_def success_page [OF assms(1)]
    using assms(2)
    by (simp add: show_success_def showSuccessUI_def submit_start_def split: option.splits)
  then have 2: "\<forall>evs. submit_disabled
      (fst (run_events SuccessView evs (reservation_submit SuccessView env (p, b))))"
    using run_events_locked still_locked_def by blast
  have 3: "timers (fst (reservation_submit AutoReenable env (p, b))) = timers p @ [ReenableSubmit]"
    unfolding success_page [OF assms(1)] by (simp add: show_success_def submit_start_def)
  have 4: "submit_disabled (fire_timer ReenableSubmit
      (fst (reservation_submit AutoReenable env (p, b)))) = False"
    by (simp add: fire_timer_def)
  from 1 2 3 4 show ?thesis by blast
qed

text \<open>After the success view's timers and a phone input the button is still disabled.\<close>

theorem success_view_witness:
  "fst (submit_try kolkata_env (inputs asha_page) empty_backend) = Inr (formData_of asha_fields)
   \<and> ReenableSubmit \<notin> set (timers asha_page)
   \<and> submit_disabled (fst (run_events SuccessView [TimerFires 0, PhoneInput ''98'', TimerFires 0]
        (reservation_submit SuccessView kolkata_env (asha_page, empty_backend))))"
proof -
  have t: "ReenableSubmit \<notin> set (timers asha_page)" by (simp add: asha_page_def)
  from success_view_keeps_submit_disabled [OF asha_success t, of SuccessView]
  show ?thesis using asha_success t by blast
qed

text \<open>
  C9 as stated fails in \<open>public/js/reservations.js\<close>: when the timer set on success
  fires, the success message is still displayed and the button is enabled.
\<close>

theorem timer_reenables_submit_counterexample:
  "fst (submit_try kolkata_env (inputs asha_page) empty_backend) = Inr (formData_of asha_fields)
   \<and> submit_disabled (fst (reservation_submit AutoReenable kolkata_env (asha_page, empty_backend)))
   \<and> message_text (fst (run_events AutoReenable [TimerFires 0]
        (reservation_submit AutoReenable kolkata_env (asha_page, empty_backend)))) = success_text
   \<and> submit_disabled (fst (run_events AutoReenable [TimerFires 0]
        (reservation_submit AutoReenable kolkata_env (asha_page, empty_backend)))) = False"
proof -
  have p: "fst (reservation_submit AutoReenable kolkata_env (asha_page, empty_backend))
         = show_success AutoReenable (formData_of asha_fields) (submit_start asha_page)"
    by (rule success_page [OF asha_success])
  have a: "submit_disabled (fst (reservation_submit AutoReenable kolkata_env (asha_page, empty_backend)))"
    unfolding p by (simp add: show_success_def submit_start_def)
  have tm: "timers (fst (reservation_submit AutoReenable kolkata_env (asha_page, empty_backend)))
         = [ReenableSubmit]"
    unfolding p by (simp add: show_success_def submit_start_def asha_page_def)
  have ms: "message_text (fst (reservation_submit AutoReenable kolkata_env (asha_page, empty_backend)))
         = success_text"
    unfolding p by (simp add: show_success_def)
  have b: "message_text (fst (run_events AutoReenable [TimerFires 0]
        (reservation_submit AutoReenable kolkata_env (asha_page, empty_backend)))) = success_text"
    by (simp add: handle_event_def Let_def tm ms fire_timer_def)
  have c: "submit_disabled (fst (run_events AutoReenable [TimerFires 0]
        (reservation_submit AutoReenable kolkata_env (asha_page, empty_backend)))) = False"
    by (simp add: handle_event_def Let_def tm fire_timer_def)
  from asha_success a b c show ?thesis by blast
qed

section \<open>Properties of the Admin Console\<close>

subsection \<open>Filtering\<close>

lemma starts_with_iff: "starts_with s q \<longleftrightarrow> (\<exists>t. s = q @ t)"
  by (induction s q rule: starts_with.induct) auto

lemma js_includes_iff: "js_includes s q \<longleftrightarrow> (\<exists>pre suf. s = pre @ q @ suf)"
proof (induction s)
  case Nil
  then show ?case by simp
next
  case (Cons c cs)
  show ?case
  proof
    assume "js_includes (c # cs) q"
    then consider "starts_with (c # cs) q" | "js_includes cs q" by auto
    then show "\<exists>pre suf. c # cs = pre @ q @ suf"
    proof cases
      case 1
      then obtain t where "c # cs = q @ t" using starts_with_iff by blast
      then have "c # cs = [] @ q @ t" by simp
      then show ?thesis by blast
    next
      case 2
      then obtain pre suf where "cs = pre @ q @ suf" using Cons.IH by blast
      then have "c # cs = (c # pre) @ q @ suf" by simp
      then show ?thesis by blast
    qed
  next
    assume "\<exists>pre suf. c # cs = pre @ q @ suf"
    then obtain pre suf where e: "c # cs = pre @ q @ suf" by blast
    show "js_includes (c # cs) q"
    proof (cases pre)
      case Nil
      then have "starts_with (c # cs) q" using e starts_with_iff by auto
      then show ?thesis by simp
    next
      case (Cons a pre')
      then have "cs = pre' @ q @ suf" using e by simp
      then have "js_includes cs q" using Cons.IH by blast
      then show ?thesis by simp
    qed
  qed
qed

lemma filter_keeps_iff:
  "filter_keeps st dt q r \<longleftrightarrow>
     (st = ''all'' \<or> status r = st)
     \<and> (dt = [] \<or> reservationDate r = dt)
     \<and> (q = [] \<or> (\<exists>pre suf. js_toLowerCase (customerName r @ '' '' @ customerPhone r) = pre @ q @ suf))"
  by (auto simp: filter_keeps_def js_includes_iff)

lemma filtered_render: "filteredReservations (renderReservations a) = filteredReservations a"
  by (simp add: renderReservations_def)

lemma filtered_applyFilters:
  "filteredReservations (applyFilters a) =
     filter (\<lambda>(rid, r). filter_keeps (filter_status a) (filter_date a)
                (js_toLowerCase (search_input a)) r) (allReservations a)"
  by (simp add: applyFilters_def Let_def filtered_render)

lemma render_keeps:
  "allReservations (renderReservations a) = allReservations a"
  "filter_status (renderReservations a) = filter_status a"
  "filter_date (renderReservations a) = filter_date a"
  "search_input (renderReservations a) = search_input a"
  by (simp_all add: renderReservations_def)

lemma applyFilters_keeps:
  "allReservations (applyFilters a) = allReservations a"
  "filter_status (applyFilters a) = filter_status a"
  "filter_date (applyFilters a) = filter_date a"
  "search_input (applyFilters a) = search_input a"
  by (simp_all add: applyFilters_def Let_def render_keeps)

lemma to_lower_empty: "js_toLowerCase s = [] \<longleftrightarrow> s = []"
  by (simp add: js_toLowerCase_def)

lemma keeps_as_stated:
  "filter_keeps (filter_status a) (filter_date a) (js_toLowerCase (search_input a)) r \<longleftrightarrow>
     (filter_status a = ''all'' \<or> status r = filter_status a)
     \<and> (filter_date a = [] \<or> reservationDate r = filter_date a)
     \<and> (search_input a = [] \<or>
          (\<exists>pre suf. js_toLowerCase (customerName r @ '' '' @ customerPhone r)
                       = pre @ js_toLowerCase (search_input a) @ suf))"
  by (simp add: filter_keeps_iff to_lower_empty)

lemma asha_doc_fields:
  "status asha_doc = ''pending''" "createdAt asha_doc = At 1768050000500"
  "updatedAt asha_doc = At 1768050000500" "customerEmail asha_doc = None"
  by (simp_all add: asha_doc_def resolve_doc_def formData_of_def asha_fields_def or_null_def js_trim_def)

text \<open>
  C7 (as amended). \<open>applyFilters\<close> computes the filtered list from the in-memory list and
  the three filter inputs alone: a reservation is kept if and only if the status filter
  is \<open>all\<close> or equals its status, the date filter is empty or equals its date, and the
  search text is empty or is, case-insensitively, a substring of its name, one space and
  its phone number. It leaves the in-memory list as it is, and applying it again with
  the same inputs gives the same state.
\<close>

theorem filtered_view_is_conjunctive_filter:
  "filteredReservations (applyFilters a) =
     filter (\<lambda>(rid, r).
        (filter_status a = ''all'' \<or> status r = filter_status a)
        \<and> (filter_date a = [] \<or> reservationDate r = filter_date a)
        \<and> (search_input a = [] \<or>
             (\<exists>pre suf. js_toLowerCase (customerName r @ '' '' @ customerPhone r)
                          = pre @ js_toLowerCase (search_input a) @ suf)))
       (allReservations a)
   \<and> allReservations (applyFilters a) = allReservations a
   \<and> applyFilters (applyFilters a) = applyFilters a"
proof -
  have 1: "filteredReservations (applyFilters a) =
     filter (\<lambda>(rid, r).
        (filter_status a = ''all'' \<or> status r = filter_status a)
        \<and> (filter_date a = [] \<or> reservationDate r = filter_date a)
        \<and> (search_input a = [] \<or>
             (\<exists>pre suf. js_toLowerCase (customerName r @ '' '' @ customerPhone r)
                          = pre @ js_toLowerCase (search_input a) @ suf)))
       (allReservations a)"
    unfolding filtered_applyFilters keeps_as_stated ..
  have 3: "applyFilters (applyFilters a) = applyFilters a"
    by (simp add: applyFilters_def Let_def render_keeps renderReservations_def)
  from 1 3 show ?thesis by (simp add: applyFilters_keeps)
qed

text \<open>
  For Asha Rao, 9876543210: the search \<open>RAO 98\<close> finds the reservation, \<open>o9\<close> does not.
\<close>

theorem filtered_view_witness:
  "filteredReservations (applyFilters (asha_admin\<lparr>search_input := ''RAO 98''\<rparr>))
     = [(''res1'', asha_doc)]
   \<and> filteredReservations (applyFilters (asha_admin\<lparr>search_input := ''o9''\<rparr>)) = []"
proof -
  have n: "customerName asha_doc = ''Asha Rao''" "customerPhone asha_doc = ''9876543210''"
    by code_simp+
  have l: "js_toLowerCase ''Asha Rao 9876543210'' = ''asha rao 9876543210''"
    "js_toLowerCase ''RAO 98'' = ''rao 98''" "js_toLowerCase ''o9'' = ''o9''"
    by code_simp+
  have "''asha rao 9876543210'' = ''asha '' @ ''rao 98'' @ ''76543210''" by simp
  then have y: "\<exists>pre suf. ''asha rao 9876543210'' = pre @ ''rao 98'' @ suf" by blast
  have "\<not> js_includes ''asha rao 9876543210'' ''o9''" by code_simp
  then have z: "\<not> (\<exists>pre suf. ''asha rao 9876543210'' = pre @ ''o9'' @ suf)"
    using js_includes_iff by blast
  show ?thesis
    using filtered_view_is_conjunctive_filter [of "asha_admin\<lparr>search_input := ''RAO 98''\<rparr>"]
      filtered_view_is_conjunctive_filter [of "asha_admin\<lparr>search_input := ''o9''\<rparr>"] y z
    by (simp add: asha_admin_def admin_start_def n l)
qed

text \<open>
  C7 as stated fails: the search text \<open>o9\<close> is a substring of the name concatenated with
  the phone number, \<open>Asha Rao9876543210\<close>, yet the filtered list is empty, because the
  code searches \<open>Asha Rao 9876543210\<close>.
\<close>

theorem search_across_name_and_phone_counterexample:
  "filteredReservations (applyFilters (asha_admin\<lparr>search_input := ''o9''\<rparr>)) = []
   \<and> filter (\<lambda>(rid, r). spec_included ''all'' [] ''o9'' r) [(''res1'', asha_doc)]
       = [(''res1'', asha_doc)]"
  by code_simp

subsection \<open>Status transitions\<close>

lemma find_id: "find (\<lambda>(rid, r). rid = i) xs = Some (j, r) \<Longrightarrow> j = i \<and> (i, r) \<in> set xs"
  by (induction xs) (auto split: if_splits)


text \<open>With markup in a value, the buttons of the modal are the browser's.\<close>

lemma showReservationDetails_markup:
  assumes "find (\<lambda>(rid, r). rid = i) (allReservations a) = Some (i, r)"
    and "\<not> list_all html_plain (interpolated i r)"
  shows "modal_actions (showReservationDetails browser i a) = browser i r"
  using assms by (simp add: showReservationDetails_def)


lemma update_accepted:
  assumes "db rid = Some r"
  shows "updateReservationStatus env rid s (a, db) =
     (case write_result env of
        WriteAccepted \<Rightarrow>
          (a\<lparr>modal_shown := False,
             alerts := alerts a @ [''Reservation '' @ s @ '' successfully!'']\<rparr>,
           db(rid \<mapsto> r\<lparr>status := s, updatedAt := At (write_time env)\<rparr>))
      | WriteRejected e \<Rightarrow>
          (a\<lparr>alerts := alerts a @ [''Error updating reservation: '' @ message_string e]\<rparr>, db))"
  using assms
  by (simp add: updateReservationStatus_def firestore_update_def status_changes_def
      no_changes_def apply_changes_def Let_def split: write_outcome.splits)





text \<open>
  C6. When the database accepts the update that sets a pending reservation to
  \<open>confirmed\<close>, the collection differs at that document only; the document's status is
  \<open>confirmed\<close>, its \<open>updatedAt\<close> is the server time of the write, and \<open>createdAt\<close> and
  every other field are as before.
\<close>

theorem confirm_changes_status_and_updatedAt_only:
  assumes "db rid = Some r"
    and "status r = ''pending''"
    and "write_result env = WriteAccepted"
  shows "snd (updateReservationStatus env rid ''confirmed'' (a, db))
           = db(rid \<mapsto> r\<lparr>status := ''confirmed'', updatedAt := At (write_time env)\<rparr>)"
  using update_accepted [of db rid r env "''confirmed''" a] assms(1,3) by simp

text \<open>The reservation \<open>res1\<close> confirmed an hour after its creation.\<close>

theorem confirm_witness:
  "asha_db ''res1'' = Some asha_doc \<and> status asha_doc = ''pending''
   \<and> write_result confirm_env = WriteAccepted
   \<and> snd (updateReservationStatus confirm_env ''res1'' ''confirmed'' (asha_admin, asha_db)) ''res1''
       = Some (asha_doc\<lparr>status := ''confirmed'', updatedAt := At 1768053600000\<rparr>)
   \<and> createdAt (asha_doc\<lparr>status := ''confirmed'', updatedAt := At 1768053600000\<rparr>)
       = At 1768050000500"
proof -
  have a: "asha_db ''res1'' = Some asha_doc" by (simp add: asha_db_def)
  have c: "write_result confirm_env = WriteAccepted" "write_time confirm_env = 1768053600000"
    by (simp_all add: confirm_env_def)
  from confirm_changes_status_and_updatedAt_only
         [of asha_db "''res1''" asha_doc confirm_env asha_admin] a asha_doc_fields(1) c(1)
  show ?thesis using c asha_doc_fields by simp
qed

section \<open>Properties of the Notification Trigger\<close>

lemma rejections_empty: "rejections ds = [] \<longleftrightarrow> (\<forall>d \<in> set ds. failure d = None)"
  by (induction ds) (auto simp: rejections_def split: option.splits)

lemma rejections_mem: "(t, m) \<in> set (rejections ds) \<Longrightarrow> \<exists>d \<in> set ds. failure d = Some m"
  by (induction ds) (auto simp: rejections_def split: option.splits)

lemma foldl_earlier_mem: "foldl earlier x xs \<in> set (x # xs)"
  by (induction xs arbitrary: x) (auto simp: earlier_def)

lemma Promise_all_None: "Promise_all ds = None \<longleftrightarrow> (\<forall>d \<in> set ds. failure d = None)"
proof -
  have "Promise_all ds = None \<longleftrightarrow> rejections ds = []"
    by (simp add: Promise_all_def split: list.splits)
  then show ?thesis by (simp add: rejections_empty)
qed

lemma Promise_all_Some:
  assumes "Promise_all ds = Some m"
  shows "\<exists>d \<in> set ds. failure d = Some m"
proof -
  obtain x xs where r: "rejections ds = x # xs" and m: "m = snd (foldl earlier x xs)"
    using assms by (auto simp: Promise_all_def split: list.splits)
  have "foldl earlier x xs \<in> set (rejections ds)"
    using foldl_earlier_mem [of x xs] r by simp
  then have "(fst (foldl earlier x xs), m) \<in> set (rejections ds)" using m by simp
  then show ?thesis by (rule rejections_mem)
qed

lemma trigger_dispatched:
  "dispatched (sendReservationEmails env (Some (rid, r)) db) = notifications rid r"
  by (simp add: sendReservationEmails_def Let_def split: option.splits prod.splits sum.splits)

lemma trigger_succeeds_iff:
  "result (sendReservationEmails env (Some (rid, r)) db) = Succeeded
     \<longleftrightarrow> Promise_all (map (send_result env) (notifications rid r)) = None"
  by (simp add: sendReservationEmails_def Let_def split: option.splits prod.splits sum.splits)

lemma trigger_failure:
  assumes "Promise_all (map (send_result env) (notifications rid r)) = Some m"
  shows "updates (sendReservationEmails env (Some (rid, r)) db) = [(rid, email_error_changes m)]"
    and "\<exists>e. result (sendReservationEmails env (Some (rid, r)) db) = Failed e"
    and "db rid = Some d \<Longrightarrow> annotate_result env = WriteAccepted \<Longrightarrow>
         collection_after (sendReservationEmails env (Some (rid, r)) db)
           = db(rid \<mapsto> d\<lparr>emailError := Some m, emailErrorTimestamp := Some (At (annotate_time env))\<rparr>)
         \<and> result (sendReservationEmails env (Some (rid, r)) db)
             = Failed (Error (''Failed to send emails: '' @ m))"
  using assms
  by (simp_all add: sendReservationEmails_def Let_def firestore_update_def email_error_changes_def
      no_changes_def apply_changes_def split: option.splits prod.splits sum.splits write_outcome.splits)

text \<open>
  C4. For a created reservation the trigger hands the mail provider one message to each
  of the two manager addresses, from the sender address, about that reservation and its
  identifier, and, exactly when \<open>customerEmail\<close> is truthy, one confirmation addressed to
  \<open>customerEmail\<close>. Its result is success if and only if every dispatch succeeds. When
  a dispatch fails, it issues one update of the originating document that names
  \<open>emailError\<close>, set to the message of a failed dispatch, and \<open>emailErrorTimestamp\<close>, set
  to the server timestamp, and no other field, and it ends in failure; when the database
  accepts that update, the document carries both fields, nothing else changes, and the
  error rethrown is \<open>Failed to send emails:\<close> followed by the message.
\<close>

theorem trigger_notifies_and_records_failure:
  "dispatched (sendReservationEmails env (Some (rid, r)) db)
     = map (\<lambda>address.
              \<lparr>mail_to = address, mail_from = ''noreply@onesip.co.in'',
               subject = [CHR 0xF0, CHR 0x9F, CHR 0x8D, CHR 0xBD, CHR 0xEF, CHR 0xB8, CHR 0x8F]
                           @ '' New Reservation - '' @ customerName r,
               kind = ManagerAlert rid, about = r\<rparr>)
         [''biswas31@yahoo.com'', ''neilbiswas13@gmail.com'']
       @ (case customerEmail r of
            None \<Rightarrow> []
          | Some address \<Rightarrow>
              if address = [] then []
              else [\<lparr>mail_to = address, mail_from = ''noreply@onesip.co.in'',
                     subject = ''Reservation Request Received - One Sip'',
                     kind = CustomerNotice, about = r\<rparr>])
   \<and> (result (sendReservationEmails env (Some (rid, r)) db) = Succeeded
        \<longleftrightarrow> (\<forall>msg \<in> set (dispatched (sendReservationEmails env (Some (rid, r)) db)).
               failure (send_result env msg) = None))
   \<and> ((\<exists>msg \<in> set (dispatched (sendReservationEmails env (Some (rid, r)) db)).
          failure (send_result env msg) \<noteq> None)
       \<longrightarrow> (\<exists>m. (\<exists>msg \<in> set (dispatched (sendReservationEmails env (Some (rid, r)) db)).
                    failure (send_result env msg) = Some m)
              \<and> updates (sendReservationEmails env (Some (rid, r)) db)
                  = [(rid, \<lparr>set_status = None, set_updatedAt = None,
                            set_emailError = Some m,
                            set_emailErrorTimestamp = Some ServerTimestamp\<rparr>)]
              \<and> (\<exists>e. result (sendReservationEmails env (Some (rid, r)) db) = Failed e)
              \<and> (\<forall>d. db rid = Some d \<and> annotate_result env = WriteAccepted \<longrightarrow>
                    collection_after (sendReservationEmails env (Some (rid, r)) db)
                      = db(rid \<mapsto> d\<lparr>emailError := Some m,
                                      emailErrorTimestamp := Some (At (annotate_time env))\<rparr>)
                    \<and> result (sendReservationEmails env (Some (rid, r)) db)
                        = Failed (JsError (Some (''Failed to send emails: '' @ m))))))"
proof -
  let ?run = "sendReservationEmails env (Some (rid, r)) db"
  let ?ds = "map (send_result env) (notifications rid r)"
  have d: "dispatched ?run = notifications rid r" by (rule trigger_dispatched)
  have 1: "dispatched ?run
     = map (\<lambda>address.
              \<lparr>mail_to = address, mail_from = ''noreply@onesip.co.in'',
               subject = [CHR 0xF0, CHR 0x9F, CHR 0x8D, CHR 0xBD, CHR 0xEF, CHR 0xB8, CHR 0x8F]
                           @ '' New Reservation - '' @ customerName r,
               kind = ManagerAlert rid, about = r\<rparr>)
         [''biswas31@yahoo.com'', ''neilbiswas13@gmail.com'']
       @ (case customerEmail r of
            None \<Rightarrow> []
          | Some address \<Rightarrow>
              if address = [] then []
              else [\<lparr>mail_to = address, mail_from = ''noreply@onesip.co.in'',
                     subject = ''Reservation Request Received - One Sip'',
                     kind = CustomerNotice, about = r\<rparr>])"
    unfolding d
    by (cases "customerEmail r")
       (simp_all add: notifications_def sendManagerNotification_def
          sendCustomerConfirmation_def MANAGER_EMAILS_def FROM_EMAIL_def RESTAURANT_NAME_def
          plate_emoji_def)
  have 2: "result ?run = Succeeded
        \<longleftrightarrow> (\<forall>msg \<in> set (dispatched ?run). failure (send_result env msg) = None)"
    by (simp add: trigger_succeeds_iff Promise_all_None d)
  have 3: "\<exists>m. (\<exists>msg \<in> set (dispatched ?run). failure (send_result env msg) = Some m)
              \<and> updates ?run = [(rid, \<lparr>set_status = None, set_updatedAt = None,
                                       set_emailError = Some m,
                                       set_emailErrorTimestamp = Some ServerTimestamp\<rparr>)]
              \<and> (\<exists>e. result ?run = Failed e)
              \<and> (\<forall>d. db rid = Some d \<and> annotate_result env = WriteAccepted \<longrightarrow>
                    collection_after ?run
                      = db(rid \<mapsto> d\<lparr>emailError := Some m,
                                      emailErrorTimestamp := Some (At (annotate_time env))\<rparr>)
                    \<and> result ?run = Failed (JsError (Some (''Failed to send emails: '' @ m))))"
    if f: "\<exists>msg \<in> set (dispatched ?run). failure (send_result env msg) \<noteq> None"
  proof -
    have "Promise_all ?ds \<noteq> None" using f by (simp add: Promise_all_None d)
    then obtain m where m: "Promise_all ?ds = Some m" by blast
    have "\<exists>x \<in> set ?ds. failure x = Some m" by (rule Promise_all_Some [OF m])
    then have a: "\<exists>msg \<in> set (dispatched ?run). failure (send_result env msg) = Some m"
      by (auto simp: d)
    have b: "updates ?run = [(rid, \<lparr>set_status = None, set_updatedAt = None,
                                       set_emailError = Some m,
                                       set_emailErrorTimestamp = Some ServerTimestamp\<rparr>)]"
      using trigger_failure(1) [OF m] by (simp add: email_error_changes_def no_changes_def)
    have c: "\<forall>d. db rid = Some d \<and> annotate_result env = WriteAccepted \<longrightarrow>
                    collection_after ?run
                      = db(rid \<mapsto> d\<lparr>emailError := Some m,
                                      emailErrorTimestamp := Some (At (annotate_time env))\<rparr>)
                    \<and> result ?run = Failed (JsError (Some (''Failed to send emails: '' @ m)))"
      using trigger_failure(3) [OF m] by (simp add: Error_def)
    show ?thesis
      using a b c trigger_failure(2) [OF m] by blast
  qed
  from 1 2 3 show ?thesis by blast
qed

text \<open>
  Two manager messages delivered and the customer's rejected with \<open>Bad Request\<close>.
\<close>

theorem trigger_witness:
  "(\<exists>msg \<in> set (dispatched (sendReservationEmails bounce_env (Some (''res1'', asha_mail_doc))
                      [''res1'' \<mapsto> asha_mail_doc])).
      failure (send_result bounce_env msg) \<noteq> None)
   \<and> map mail_to (dispatched (sendReservationEmails bounce_env (Some (''res1'', asha_mail_doc))
                      [''res1'' \<mapsto> asha_mail_doc]))
       = [''biswas31@yahoo.com'', ''neilbiswas13@gmail.com'', ''asha@example.com'']
   \<and> collection_after (sendReservationEmails bounce_env (Some (''res1'', asha_mail_doc))
                      [''res1'' \<mapsto> asha_mail_doc])
       = [''res1'' \<mapsto> asha_mail_doc\<lparr>emailError := Some ''Bad Request'',
                                     emailErrorTimestamp := Some (At 1768050001000)\<rparr>]
   \<and> result (sendReservationEmails bounce_env (Some (''res1'', asha_mail_doc))
                      [''res1'' \<mapsto> asha_mail_doc])
       = Failed (JsError (Some ''Failed to send emails: Bad Request''))"
proof -
  let ?db = "[''res1'' \<mapsto> asha_mail_doc]"
  let ?run = "sendReservationEmails bounce_env (Some (''res1'', asha_mail_doc)) ?db"
  note T = trigger_notifies_and_records_failure [of bounce_env "''res1''" asha_mail_doc ?db]
  have e: "customerEmail asha_mail_doc = Some ''asha@example.com''"
    by (simp add: asha_mail_doc_def)
  have l: "map mail_to (dispatched ?run)
             = [''biswas31@yahoo.com'', ''neilbiswas13@gmail.com'', ''asha@example.com'']"
    using T by (simp add: e)
  have "\<exists>msg \<in> set (dispatched ?run). kind msg = CustomerNotice"
    using T by (simp add: e)
  then have h: "\<exists>msg \<in> set (dispatched ?run). failure (send_result bounce_env msg) \<noteq> None"
    by (auto simp: bounce_env_def)
  from T h obtain m where
    m: "\<exists>msg \<in> set (dispatched ?run). failure (send_result bounce_env msg) = Some m"
    and w: "\<forall>d. ?db ''res1'' = Some d \<and> annotate_result bounce_env = WriteAccepted \<longrightarrow>
              collection_after ?run
                = ?db(''res1'' \<mapsto> d\<lparr>emailError := Some m,
                         emailErrorTimestamp := Some (At (annotate_time bounce_env))\<rparr>)
              \<and> result ?run = Failed (JsError (Some (''Failed to send emails: '' @ m)))"
    by blast
  have "m = ''Bad Request''" using m by (auto simp: bounce_env_def split: if_splits)
  with w have "collection_after ?run
                = ?db(''res1'' \<mapsto> asha_mail_doc\<lparr>emailError := Some ''Bad Request'',
                         emailErrorTimestamp := Some (At 1768050001000)\<rparr>)
              \<and> result ?run = Failed (JsError (Some ''Failed to send emails: Bad Request''))"
    by (simp add: bounce_env_def)
  with h l show ?thesis by simp
qed

section \<open>Properties of the Identity Gateway\<close>

text \<open>
  C10. For a signed-in user whose profile document is missing, or whose read is
  rejected, the listener passes \<open>isAuthenticated = true\<close> and a user object with exactly
  the properties \<open>uid\<close>, \<open>email\<close> and \<open>displayName\<close> of the auth record.
\<close>

theorem missing_profile_gives_auth_fields_only:
  assumes "users_get (uid usr) = DocMissing \<or> (\<exists>e. users_get (uid usr) = GetRejected e)"
  shows "onAuthStateChanged users_get (Some usr) =
           \<lparr>isAuthenticated = True,
            user = Some [''uid'' \<mapsto> JString (uid usr), ''email'' \<mapsto> email usr,
                         ''displayName'' \<mapsto> displayName usr]\<rparr>
         \<and> (\<forall>obj. user (onAuthStateChanged users_get (Some usr)) = Some obj \<longrightarrow>
               dom obj = {''uid'', ''email'', ''displayName''})"
  using assms
  by (auto simp add: onAuthStateChanged_def getUserData_def spread_def Let_def)

text \<open>A user without a display name, the profile missing or unreadable.\<close>

theorem missing_profile_witness:
  "onAuthStateChanged (\<lambda>u. DocMissing) (Some asha_user) =
     \<lparr>isAuthenticated = True,
      user = Some [''uid'' \<mapsto> JString ''u1'', ''email'' \<mapsto> JString ''asha@example.com'',
                   ''displayName'' \<mapsto> JNull]\<rparr>
   \<and> onAuthStateChanged (\<lambda>u. GetRejected (Error ''unavailable'')) (Some asha_user) =
     \<lparr>isAuthenticated = True,
      user = Some [''uid'' \<mapsto> JString ''u1'', ''email'' \<mapsto> JString ''asha@example.com'',
                   ''displayName'' \<mapsto> JNull]\<rparr>"
  using missing_profile_gives_auth_fields_only [of "\<lambda>u. DocMissing" asha_user]
    missing_profile_gives_auth_fields_only [of "\<lambda>u. GetRejected (Error ''unavailable'')" asha_user]
  by (simp add: asha_user_def)

text \<open>With a profile, its properties are merged over the three of the auth record.\<close>

lemma found_profile_is_merged:
  "users_get (uid usr) = DocExists d \<Longrightarrow>
   user (onAuthStateChanged users_get (Some usr)) =
     Some ([''uid'' \<mapsto> JString (uid usr), ''email'' \<mapsto> email usr,
            ''displayName'' \<mapsto> displayName usr] ++ d)"
  by (simp add: onAuthStateChanged_def getUserData_def spread_def Let_def)

end
